theory Spec2Isabelle
  imports Complex_Main
begin

section \<open>PopperContent: data model\<close>

text \<open>
  The component of \<^verbatim>\<open>popperContent.ts\<close> translates its props into a list of middleware
  configurations for an external positioning engine, and renders two nested elements from
  what the engine reports. A JavaScript number is modelled as a real (NaN and the
  infinities are outside the model; no claim computes with them), a DOM element as a node
  identifier, \<^verbatim>\<open>null\<close>/\<^verbatim>\<open>undefined\<close> as \<open>None\<close>, and a callback by an identifier, its
  invocations being logged in the component state.
\<close>

type_synonym number = real
type_synonym Element = nat
type_synonym Callback = nat

datatype Side = Top | Right | Bottom | Left
datatype Align = Start | Center | End
datatype Sticky = StickyPartial | StickyAlways
datatype UpdatePositionStrategy = UpdateOptimized | UpdateAlways

text \<open>
  The engine's \<^verbatim>\<open>Padding\<close> type is \<^verbatim>\<open>number | Partial<SideObject>\<close>: a scalar, or an object
  with any of the keys top, right, bottom, left. An object is a map from its keys.
\<close>

datatype Padding = PadNumber number | PadObject "Side \<rightharpoonup> number"

text \<open>\<^verbatim>\<open>collisionBoundary?: Boundary | Boundary[]\<close> with \<^verbatim>\<open>type Boundary = Element | null\<close>.\<close>

datatype BoundaryProp = Single "Element option" | Many "Element option list"

record Props =
  side :: Side
  sideOffset :: number
  align :: Align
  alignOffset :: number
  arrowPadding :: number
  avoidCollisions :: bool
  collisionBoundary :: BoundaryProp
  collisionPaddingProp :: Padding
  sticky :: Sticky
  hideWhenDetached :: bool
  updatePositionStrategy :: UpdatePositionStrategy
  onPlaced :: "Callback option"

text \<open>The defaults of the \<^verbatim>\<open>props\<close> declaration (lines 54-121).\<close>

definition defaultProps :: Props where
  "defaultProps =
     \<lparr> side = Bottom, sideOffset = 0, align = Center, alignOffset = 0, arrowPadding = 0,
       avoidCollisions = True, collisionBoundary = Many [], collisionPaddingProp = PadNumber 0,
       sticky = StickyPartial, hideWhenDetached = False,
       updatePositionStrategy = UpdateOptimized, onPlaced = None \<rparr>"

record DetectOverflowOptions =
  padding :: Padding
  boundary :: "Element list"
  altBoundary :: bool

datatype Limiter = LimitShift
datatype HideStrategy = ReferenceHidden

text \<open>
  A middleware configuration, one constructor for each factory the component calls:
  \<^verbatim>\<open>offset({mainAxis, alignmentAxis})\<close>,
  \<^verbatim>\<open>shift({mainAxis, crossAxis, limiter, ...detectOverflowOptions})\<close>,
  \<^verbatim>\<open>flip({...detectOverflowOptions})\<close>, \<^verbatim>\<open>size({...detectOverflowOptions, apply})\<close>,
  \<^verbatim>\<open>arrow({element, padding})\<close>, \<^verbatim>\<open>transformOrigin({arrowWidth, arrowHeight})\<close> and
  \<^verbatim>\<open>hide({strategy, ...detectOverflowOptions})\<close>. The keys of the spread object
  (padding, boundary, altBoundary) are disjoint from the keys written before it, so the
  spread overrides none of them.
\<close>

datatype Middleware =
    Offset number number
  | Shift bool bool "Limiter option" DetectOverflowOptions
  | Flip DetectOverflowOptions
  | Size DetectOverflowOptions
  | Arrow Element number
  | TransformOrigin number number
  | Hide HideStrategy DetectOverflowOptions

datatype MiddlewareName =
  NameOffset | NameShift | NameFlip | NameSize | NameArrow | NameTransformOrigin | NameHide

fun middlewareName :: "Middleware \<Rightarrow> MiddlewareName" where
  "middlewareName (Offset _ _) = NameOffset"
| "middlewareName (Shift _ _ _ _) = NameShift"
| "middlewareName (Flip _) = NameFlip"
| "middlewareName (Size _) = NameSize"
| "middlewareName (Arrow _ _) = NameArrow"
| "middlewareName (TransformOrigin _ _) = NameTransformOrigin"
| "middlewareName (Hide _ _) = NameHide"

record ElemSize =
  width :: number
  height :: number

text \<open>What the engine reports (the refs returned by \<^verbatim>\<open>useFloating\<close>, line 210).\<close>

record ArrowData =
  arrow_x :: "number option"
  arrow_y :: "number option"
  centerOffset :: number

record MiddlewareData =
  md_arrow :: "ArrowData option"
  md_transformOrigin :: "(string \<times> string) option"
  md_hide :: "bool option"

record Floating =
  x_val :: number
  y_val :: number
  fs_position :: string
  fs_left :: string
  fs_top :: string
  fs_transform :: "string option"
  isPositioned :: bool
  middlewareData :: MiddlewareData

text \<open>
  The state of one component instance: the reactive props, the constants computed once
  in \<^verbatim>\<open>setup\<close>, the refs the component owns, the engine's outputs, and the log of the
  calls of the placed callback.
\<close>

record Instance =
  props :: Props
  detectOverflowOptions :: DetectOverflowOptions
  handlePlaced :: "Callback option"
  content :: "Element option"
  newRef :: "Element option"
  arrow :: "Element option"
  arrowSize :: "ElemSize option"
  floating :: Floating
  contentZIndex :: "string option"
  placedLog :: "Callback list"

section \<open>The configuration translator\<close>

text \<open>
  Modelled from the spec: \<^verbatim>\<open>isNotNull\<close> and \<^verbatim>\<open>isDefined\<close> are imported from
  \<^verbatim>\<open>./utils\<close>, which is not among the sources; the spec has them keep the non-null
  boundary elements and drop the null/undefined middleware entries.
\<close>

definition isNotNull :: "'a option \<Rightarrow> bool" where
  "isNotNull v = (v \<noteq> None)"

definition isDefined :: "'a option \<Rightarrow> bool" where
  "isDefined v = (v \<noteq> None)"

text \<open>
  Lines 154-157: a number is passed on as it is; an object is spread over the record of
  four zeros.
\<close>

definition collisionPadding :: "Padding \<Rightarrow> Padding" where
  "collisionPadding p =
     (case p of
        PadNumber n \<Rightarrow> PadNumber n
      | PadObject m \<Rightarrow> PadObject ([Top \<mapsto> 0, Right \<mapsto> 0, Bottom \<mapsto> 0, Left \<mapsto> 0] ++ m))"

text \<open>Line 159: \<^verbatim>\<open>Array.isArray(b) ? b : [b]\<close>.\<close>

definition boundaryOf :: "BoundaryProp \<Rightarrow> Element option list" where
  "boundaryOf b = (case b of Many xs \<Rightarrow> xs | Single v \<Rightarrow> [v])"

text \<open>Line 160: the length is taken before the nulls are filtered out.\<close>

definition hasExplicitBoundaries :: "BoundaryProp \<Rightarrow> bool" where
  "hasExplicitBoundaries b = (length (boundaryOf b) > 0)"

text \<open>Lines 162-167, as a function of the props they read.\<close>

definition mkDetectOverflowOptions :: "Props \<Rightarrow> DetectOverflowOptions" where
  "mkDetectOverflowOptions p =
     \<lparr> padding = collisionPadding (collisionPaddingProp p),
       boundary = map the (filter isNotNull (boundaryOf (collisionBoundary p))),
       altBoundary = hasExplicitBoundaries (collisionBoundary p) \<rparr>"

text \<open>\<^verbatim>\<open>v || 0\<close> for an optional number.\<close>

fun orZero :: "number option \<Rightarrow> number" where
  "orZero None = 0"
| "orZero (Some v) = (if v = 0 then 0 else v)"

definition arrowWidth :: "Instance \<Rightarrow> number" where
  "arrowWidth i = orZero (map_option width (arrowSize i))"

definition arrowHeight :: "Instance \<Rightarrow> number" where
  "arrowHeight i = orZero (map_option height (arrowSize i))"

text \<open>
  Lines 169-208, the computed \<^verbatim>\<open>_middleware\<close>: each \<^verbatim>\<open>push\<close> appends to \<^verbatim>\<open>toReturn\<close>, and
  the result is \<^verbatim>\<open>toReturn.filter(isDefined)\<close>. The props, the arrow element and the arrow
  size are read when the list is computed; \<^verbatim>\<open>detectOverflowOptions\<close> is the constant of
  \<^verbatim>\<open>setup\<close>.
\<close>

definition middleware :: "Instance \<Rightarrow> Middleware list" where
  "middleware i =
     (let p = props i;
          d = detectOverflowOptions i;
          toReturn = [];
          toReturn = toReturn @ [Some (Offset (sideOffset p + arrowHeight i) (alignOffset p))];
          toReturn =
            (if avoidCollisions p
             then (toReturn
                    @ [Some (Shift True False
                         (if sticky p = StickyPartial then Some LimitShift else None) d)])
                    @ [Some (Flip d)]
             else toReturn);
          toReturn = toReturn @ [Some (Size d)];
          toReturn =
            (case arrow i of
               Some e \<Rightarrow> toReturn @ [Some (Arrow e (arrowPadding p))]
             | None \<Rightarrow> toReturn);
          toReturn = toReturn @ [Some (TransformOrigin (arrowWidth i) (arrowHeight i))];
          toReturn =
            (if hideWhenDetached p
             then toReturn @ [Some (Hide ReferenceHidden d)]
             else toReturn)
      in map the (filter isDefined toReturn))"

section \<open>Values derived from the engine's outputs\<close>

text \<open>
  A template literal \<^verbatim>\<open>`${v}px`\<close>: a number equal to zero prints as \<^verbatim>\<open>0\<close>; the decimal
  form of any other number is the parameter \<open>toStr\<close>.
\<close>

definition px :: "(number \<Rightarrow> string) \<Rightarrow> number \<Rightarrow> string" where
  "px toStr v = (if v = 0 then ''0'' else toStr v) @ ''px''"

text \<open>Lines 247-249. \<^verbatim>\<open>a?.f\<close> is undefined when \<^verbatim>\<open>a\<close> is, and \<^verbatim>\<open>undefined !== 0\<close> is true.\<close>

definition arrowX :: "(number \<Rightarrow> string) \<Rightarrow> Instance \<Rightarrow> string" where
  "arrowX toStr i =
     px toStr (orZero (Option.bind (md_arrow (middlewareData (floating i))) arrow_x))"

definition arrowY :: "(number \<Rightarrow> string) \<Rightarrow> Instance \<Rightarrow> string" where
  "arrowY toStr i =
     px toStr (orZero (Option.bind (md_arrow (middlewareData (floating i))) arrow_y))"

definition cannotCenterArrow :: "Instance \<Rightarrow> bool" where
  "cannotCenterArrow i =
     (map_option centerOffset (md_arrow (middlewareData (floating i))) \<noteq> Some 0)"

text \<open>The provider value (lines 263-273) publishes it as \<^verbatim>\<open>shouldHideArrow\<close>.\<close>

definition shouldHideArrow :: "Instance \<Rightarrow> bool" where
  "shouldHideArrow i = cannotCenterArrow i"

section \<open>The render function\<close>

record OuterStyle =
  st_position :: string
  st_left :: string
  st_top :: string
  st_transform :: "string option"
  st_minWidth :: string
  st_zIndex :: "string option"
  st_transformOrigin :: string

text \<open>
  Lines 274-293, the style of the outer element. Joining \<^verbatim>\<open>[a, b]\<close> with a space prints
  an undefined entry as the empty string.
\<close>

definition originalReturn :: "Instance \<Rightarrow> OuterStyle" where
  "originalReturn i =
     \<lparr> st_position = fs_position (floating i),
       st_left = fs_left (floating i) @ ''px'',
       st_top = fs_top (floating i) @ ''px'',
       st_transform =
         (if isPositioned (floating i) then fs_transform (floating i)
          else Some ''translate(0, -200%)''),
       st_minWidth = ''max-content'',
       st_zIndex = contentZIndex i,
       st_transformOrigin =
         (case md_transformOrigin (middlewareData (floating i)) of
            None \<Rightarrow> '' ''
          | Some (ox, oy) \<Rightarrow> ox @ '' '' @ oy) \<rparr>"

section \<open>Lifecycle\<close>

text \<open>
  Modelled from the spec: \<^verbatim>\<open>useCallbackRef\<close> is imported from
  \<^verbatim>\<open>@oku-ui/use-composable\<close>, which is not among the sources; the spec has it wrap a
  callback in a handle of stable identity. The handle is itself a function (line 244
  calls it); calling it calls the callback it was given, if there is one. The handle is
  represented by that callback.
\<close>

definition useCallbackRef :: "Callback option \<Rightarrow> Callback option" where
  "useCallbackRef cb = cb"

text \<open>A call \<^verbatim>\<open>handlePlaced()\<close> of the handle, appended to the log of calls.\<close>

definition callHandle :: "Callback option \<Rightarrow> Callback list \<Rightarrow> Callback list" where
  "callHandle h calls = (case h of Some cb \<Rightarrow> calls @ [cb] | None \<Rightarrow> calls)"

text \<open>
  \<^verbatim>\<open>setup\<close> runs once per instance. It takes the props at that moment and the engine's
  outputs before any computation. The overflow-detection options and the placed
  callback are read from the props here, outside any computed expression (lines 154-167
  and 240: \<^verbatim>\<open>useCallbackRef(onPlaced.value)\<close>); \<^verbatim>\<open>content\<close> starts as \<^verbatim>\<open>ref(null)\<close> (line 143).
  The watcher of line 242 is created here. Its source array holds the ref
  \<^verbatim>\<open>isPositioned\<close> and the function \<^verbatim>\<open>handlePlaced\<close>; the framework's \<^verbatim>\<open>watch\<close> evaluates
  a source that is a function by calling it, once when the watcher is created and once
  each time the watcher is triggered. So the handle is called once during setup.
\<close>

definition setupInstance :: "Props \<Rightarrow> Floating \<Rightarrow> Instance" where
  "setupInstance p fl =
     \<lparr> props = p,
       detectOverflowOptions = mkDetectOverflowOptions p,
       handlePlaced = useCallbackRef (onPlaced p),
       content = None,
       newRef = None,
       arrow = None,
       arrowSize = None,
       floating = fl,
       contentZIndex = None,
       placedLog = callHandle (useCallbackRef (onPlaced p)) [] \<rparr>"

text \<open>
  What can happen to an instance afterwards: the owner changes the props; a descendant
  sets or clears the arrow slot; the size observer reports the arrow's size; the
  rendered nodes are mounted (outer wrapper and inner content element), which binds the
  template ref \<^verbatim>\<open>newRef\<close> of the outer element (line 277), the only ref the render
  function binds; the engine writes new outputs.
\<close>

datatype Event =
    PropsChanged Props
  | ArrowRef "Element option"
  | ArrowResized "ElemSize option"
  | Mounted Element Element
  | EngineUpdate Floating

definition applyEvent :: "Event \<Rightarrow> Instance \<Rightarrow> Instance" where
  "applyEvent ev i =
     (case ev of
        PropsChanged p \<Rightarrow> i\<lparr>props := p\<rparr>
      | ArrowRef a \<Rightarrow> i\<lparr>arrow := a\<rparr>
      | ArrowResized s \<Rightarrow> i\<lparr>arrowSize := s\<rparr>
      | Mounted outer inner \<Rightarrow> i\<lparr>newRef := Some outer\<rparr>
      | EngineUpdate fl \<Rightarrow> i\<lparr>floating := fl\<rparr>)"

text \<open>
  Lines 242-245: the watcher on \<^verbatim>\<open>[isPositioned, handlePlaced]\<close>. It is triggered when
  the ref it read, \<^verbatim>\<open>isPositioned\<close>, has changed. It then evaluates its sources again,
  which calls the handle, and runs its callback, which calls the handle once more if
  the flag is then true. Each change is processed to completion before the next.
\<close>

definition watchPlaced :: "Instance \<Rightarrow> Instance \<Rightarrow> Instance" where
  "watchPlaced old new =
     (if isPositioned (floating old) \<noteq> isPositioned (floating new)
      then (let sourcesRead = new\<lparr>placedLog := callHandle (handlePlaced new) (placedLog new)\<rparr>
            in if isPositioned (floating sourcesRead)
               then sourcesRead\<lparr>placedLog :=
                      callHandle (handlePlaced sourcesRead) (placedLog sourcesRead)\<rparr>
               else sourcesRead)
      else new)"

text \<open>
  Lines 257-261: the watcher on \<^verbatim>\<open>content\<close> reads the computed z-index of the element
  when \<^verbatim>\<open>content\<close> has changed to an element. \<open>zIndexOf\<close> is
  \<^verbatim>\<open>window.getComputedStyle(e).zIndex\<close>.
\<close>

definition watchContent :: "(Element \<Rightarrow> string) \<Rightarrow> Instance \<Rightarrow> Instance \<Rightarrow> Instance" where
  "watchContent zIndexOf old new =
     (if content old \<noteq> content new
      then (case content new of
              Some c \<Rightarrow> new\<lparr>contentZIndex := Some (zIndexOf c)\<rparr>
            | None \<Rightarrow> new)
      else new)"

definition step :: "(Element \<Rightarrow> string) \<Rightarrow> Event \<Rightarrow> Instance \<Rightarrow> Instance" where
  "step zIndexOf ev i = watchContent zIndexOf i (watchPlaced i (applyEvent ev i))"

fun run :: "(Element \<Rightarrow> string) \<Rightarrow> Event list \<Rightarrow> Instance \<Rightarrow> Instance" where
  "run zIndexOf [] i = i"
| "run zIndexOf (ev # evs) i = run zIndexOf evs (step zIndexOf ev i)"

text \<open>
  The engine's outputs before its first computation: no coordinates, not positioned,
  empty middleware data.
\<close>

definition unplaced :: Floating where
  "unplaced =
     \<lparr> x_val = 0, y_val = 0, fs_position = ''fixed'', fs_left = ''0'', fs_top = ''0'',
       fs_transform = None, isPositioned = False,
       middlewareData = \<lparr> md_arrow = None, md_transformOrigin = None, md_hide = None \<rparr> \<rparr>"

section \<open>Notions used to state the properties\<close>

text \<open>
  The numbers of false-to-true and of true-to-false transitions in a sequence of values
  of the positioned flag, starting from the value \<open>b\<close>, and the sequence of values the
  engine writes in a list of events.
\<close>

fun risingEdges :: "bool \<Rightarrow> bool list \<Rightarrow> nat" where
  "risingEdges b [] = 0"
| "risingEdges b (c # cs) = (if \<not> b \<and> c then 1 else 0) + risingEdges c cs"

fun fallingEdges :: "bool \<Rightarrow> bool list \<Rightarrow> nat" where
  "fallingEdges b [] = 0"
| "fallingEdges b (c # cs) = (if b \<and> \<not> c then 1 else 0) + fallingEdges c cs"

fun positionedFlags :: "Event list \<Rightarrow> bool list" where
  "positionedFlags [] = []"
| "positionedFlags (EngineUpdate fl # evs) = isPositioned fl # positionedFlags evs"
| "positionedFlags (ev # evs) = positionedFlags evs"

text \<open>
  The positioning engine is external. It starts each computation with empty middleware
  data and lets each step of the list it was given write under its own name; so its
  outputs carry arrow data only if that list has an arrow step. A trace of events
  respects this when every output the engine writes does, for the list of the state it
  is written to.
\<close>

definition engineFaithful :: "Middleware list \<Rightarrow> Floating \<Rightarrow> bool" where
  "engineFaithful ms fl =
     (md_arrow (middlewareData fl) \<noteq> None \<longrightarrow> NameArrow \<in> set (map middlewareName ms))"

fun engineTrace :: "(Element \<Rightarrow> string) \<Rightarrow> Instance \<Rightarrow> Event list \<Rightarrow> bool" where
  "engineTrace zIndexOf i [] = True"
| "engineTrace zIndexOf i (ev # evs) =
     ((case ev of EngineUpdate fl \<Rightarrow> engineFaithful (middleware i) fl | _ \<Rightarrow> True)
      \<and> engineTrace zIndexOf (step zIndexOf ev i) evs)"

text \<open>An event that registers an arrow element.\<close>

fun registersArrow :: "Event \<Rightarrow> bool" where
  "registersArrow (ArrowRef (Some e)) = True"
| "registersArrow _ = False"

section \<open>Order and content of the middleware list\<close>

lemma middleware_unfold:
  "middleware i =
     [Offset (sideOffset (props i) + arrowHeight i) (alignOffset (props i))]
     @ (if avoidCollisions (props i)
        then [Shift True False
                (if sticky (props i) = StickyPartial then Some LimitShift else None)
                (detectOverflowOptions i),
              Flip (detectOverflowOptions i)]
        else [])
     @ [Size (detectOverflowOptions i)]
     @ (case arrow i of Some e \<Rightarrow> [Arrow e (arrowPadding (props i))] | None \<Rightarrow> [])
     @ [TransformOrigin (arrowWidth i) (arrowHeight i)]
     @ (if hideWhenDetached (props i)
        then [Hide ReferenceHidden (detectOverflowOptions i)]
        else [])"
  by (simp add: middleware_def Let_def isDefined_def split: option.split)

lemma middleware_names:
  "map middlewareName (middleware i) =
     [NameOffset]
     @ (if avoidCollisions (props i) then [NameShift, NameFlip] else [])
     @ [NameSize]
     @ (if arrow i \<noteq> None then [NameArrow] else [])
     @ [NameTransformOrigin]
     @ (if hideWhenDetached (props i) then [NameHide] else [])"
  by (simp add: middleware_unfold split: option.split)

text \<open>
  C1: for every instance state, the names of the middleware list are offset; then
  shift and flip, only if avoidCollisions is true; then size; then arrow, only if an
  arrow element is registered; then transform-origin; then hide, only if
  hideWhenDetached is true. As the whole list is given, no step stands anywhere else.
\<close>

theorem C1_middleware_order:
  "map middlewareName (middleware i) =
     [NameOffset]
     @ (if avoidCollisions (props i) then [NameShift, NameFlip] else [])
     @ [NameSize]
     @ (if arrow i \<noteq> None then [NameArrow] else [])
     @ [NameTransformOrigin]
     @ (if hideWhenDetached (props i) then [NameHide] else [])"
  by (simp add: middleware_unfold split: option.split)

text \<open>
  C2: when avoidCollisions is false the list has no shift and no flip step, whatever
  sticky is; when it is true the list has a shift step with mainAxis true, crossAxis
  false and the limiter of limitShift for sticky "partial", none for "always",
  immediately followed by a flip step, and no other shift or flip step.
\<close>

theorem C2_shift_flip:
  "(\<not> avoidCollisions (props i) \<longrightarrow>
       NameShift \<notin> set (map middlewareName (middleware i))
     \<and> NameFlip \<notin> set (map middlewareName (middleware i)))
   \<and> (avoidCollisions (props i) \<longrightarrow>
        (\<exists>pre post.
           middleware i =
             pre @ [Shift True False
                      (case sticky (props i) of
                         StickyPartial \<Rightarrow> Some LimitShift
                       | StickyAlways \<Rightarrow> None)
                      (detectOverflowOptions i),
                    Flip (detectOverflowOptions i)] @ post
         \<and> NameShift \<notin> set (map middlewareName (pre @ post))
         \<and> NameFlip \<notin> set (map middlewareName (pre @ post))))"
proof (intro conjI impI)
  assume off: "\<not> avoidCollisions (props i)"
  show "NameShift \<notin> set (map middlewareName (middleware i))"
    using off by (simp add: middleware_names)
  show "NameFlip \<notin> set (map middlewareName (middleware i))"
    using off by (simp add: middleware_names)
next
  assume on: "avoidCollisions (props i)"
  let ?pre = "[Offset (sideOffset (props i) + arrowHeight i) (alignOffset (props i))]"
  let ?post = "[Size (detectOverflowOptions i)]
     @ (case arrow i of Some e \<Rightarrow> [Arrow e (arrowPadding (props i))] | None \<Rightarrow> [])
     @ [TransformOrigin (arrowWidth i) (arrowHeight i)]
     @ (if hideWhenDetached (props i)
        then [Hide ReferenceHidden (detectOverflowOptions i)]
        else [])"
  have "middleware i =
          ?pre @ [Shift True False
                      (case sticky (props i) of
                         StickyPartial \<Rightarrow> Some LimitShift
                       | StickyAlways \<Rightarrow> None)
                      (detectOverflowOptions i),
                    Flip (detectOverflowOptions i)] @ ?post"
    using on by (simp add: middleware_unfold split: Sticky.split)
  moreover have "NameShift \<notin> set (map middlewareName (?pre @ ?post))"
    by (cases "arrow i"; cases "hideWhenDetached (props i)") simp_all
  moreover have "NameFlip \<notin> set (map middlewareName (?pre @ ?post))"
    by (cases "arrow i"; cases "hideWhenDetached (props i)") simp_all
  ultimately show "\<exists>pre post.
           middleware i =
             pre @ [Shift True False
                      (case sticky (props i) of
                         StickyPartial \<Rightarrow> Some LimitShift
                       | StickyAlways \<Rightarrow> None)
                      (detectOverflowOptions i),
                    Flip (detectOverflowOptions i)] @ post
         \<and> NameShift \<notin> set (map middlewareName (pre @ post))
         \<and> NameFlip \<notin> set (map middlewareName (pre @ post))"
    by blast
qed

theorem C2_shift_flip_witness:
  "NameShift \<notin> set (map middlewareName (middleware
       (setupInstance (defaultProps\<lparr>avoidCollisions := False, sticky := StickyAlways\<rparr>) unplaced)))
   \<and> NameFlip \<notin> set (map middlewareName (middleware
       (setupInstance (defaultProps\<lparr>avoidCollisions := False, sticky := StickyAlways\<rparr>) unplaced)))
   \<and> (\<exists>pre post.
         middleware (setupInstance defaultProps unplaced) =
           pre @ [Shift True False (Some LimitShift)
                    \<lparr>padding = PadNumber 0, boundary = [], altBoundary = False\<rparr>,
                  Flip \<lparr>padding = PadNumber 0, boundary = [], altBoundary = False\<rparr>] @ post)
   \<and> (\<exists>pre post.
         middleware (setupInstance (defaultProps\<lparr>sticky := StickyAlways\<rparr>) unplaced) =
           pre @ [Shift True False None
                    \<lparr>padding = PadNumber 0, boundary = [], altBoundary = False\<rparr>,
                  Flip \<lparr>padding = PadNumber 0, boundary = [], altBoundary = False\<rparr>] @ post)"
proof -
  have a: "\<not> avoidCollisions (props
       (setupInstance (defaultProps\<lparr>avoidCollisions := False, sticky := StickyAlways\<rparr>) unplaced))"
    by (simp add: setupInstance_def defaultProps_def)
  have b: "avoidCollisions (props (setupInstance defaultProps unplaced))"
    by (simp add: setupInstance_def defaultProps_def)
  have c: "avoidCollisions (props (setupInstance (defaultProps\<lparr>sticky := StickyAlways\<rparr>) unplaced))"
    by (simp add: setupInstance_def defaultProps_def)
  have d: "detectOverflowOptions (setupInstance defaultProps unplaced)
             = \<lparr>padding = PadNumber 0, boundary = [], altBoundary = False\<rparr>"
    "detectOverflowOptions (setupInstance (defaultProps\<lparr>sticky := StickyAlways\<rparr>) unplaced)
             = \<lparr>padding = PadNumber 0, boundary = [], altBoundary = False\<rparr>"
    "sticky (props (setupInstance defaultProps unplaced)) = StickyPartial"
    "sticky (props (setupInstance (defaultProps\<lparr>sticky := StickyAlways\<rparr>) unplaced)) = StickyAlways"
    by (simp_all add: setupInstance_def defaultProps_def mkDetectOverflowOptions_def
          collisionPadding_def boundaryOf_def hasExplicitBoundaries_def)
  from C2_shift_flip [of "setupInstance (defaultProps\<lparr>avoidCollisions := False, sticky := StickyAlways\<rparr>) unplaced"] a
  have 1: "NameShift \<notin> set (map middlewareName (middleware
       (setupInstance (defaultProps\<lparr>avoidCollisions := False, sticky := StickyAlways\<rparr>) unplaced)))
   \<and> NameFlip \<notin> set (map middlewareName (middleware
       (setupInstance (defaultProps\<lparr>avoidCollisions := False, sticky := StickyAlways\<rparr>) unplaced)))"
    by blast
  from C2_shift_flip [of "setupInstance defaultProps unplaced"] b
  have 2: "\<exists>pre post.
         middleware (setupInstance defaultProps unplaced) =
           pre @ [Shift True False (Some LimitShift)
                    \<lparr>padding = PadNumber 0, boundary = [], altBoundary = False\<rparr>,
                  Flip \<lparr>padding = PadNumber 0, boundary = [], altBoundary = False\<rparr>] @ post"
    unfolding d by auto
  from C2_shift_flip [of "setupInstance (defaultProps\<lparr>sticky := StickyAlways\<rparr>) unplaced"] c
  have 3: "\<exists>pre post.
         middleware (setupInstance (defaultProps\<lparr>sticky := StickyAlways\<rparr>) unplaced) =
           pre @ [Shift True False None
                    \<lparr>padding = PadNumber 0, boundary = [], altBoundary = False\<rparr>,
                  Flip \<lparr>padding = PadNumber 0, boundary = [], altBoundary = False\<rparr>] @ post"
    unfolding d by auto
  from 1 2 3 show ?thesis by blast
qed

section \<open>The overflow-detection configuration\<close>




lemma nonnull_roundtrip:
  "map Some (map the (filter isNotNull vs)) = filter (\<lambda>v. v \<noteq> None) vs"
  by (induction vs) (auto simp: isNotNull_def)

text \<open>
  C4, as stated, fails when the caller supplies only null: for collisionBoundary = [null]
  the altBoundary flag is true although no non-null boundary element was supplied and the
  boundary list passed to the engine is empty.
\<close>

theorem C4_null_counts_as_explicit:
  "altBoundary (detectOverflowOptions
       (setupInstance (defaultProps\<lparr>collisionBoundary := Many [None]\<rparr>) unplaced))
   \<and> boundary (detectOverflowOptions
       (setupInstance (defaultProps\<lparr>collisionBoundary := Many [None]\<rparr>) unplaced)) = []"
  by (simp add: setupInstance_def defaultProps_def mkDetectOverflowOptions_def
        hasExplicitBoundaries_def boundaryOf_def isNotNull_def)

text \<open>
  C4, amended: altBoundary is true exactly when the boundary list, before its null
  entries are removed, is non-empty, that is when the caller supplied a single value
  (an element or null) or a non-empty array; [] gives false and [elementA] gives true;
  the boundary list passed to the engine is the list of the non-null entries, in order.
\<close>

theorem C4_altBoundary:
  "altBoundary (detectOverflowOptions (setupInstance p fl)) =
     (case collisionBoundary p of Single v \<Rightarrow> True | Many vs \<Rightarrow> vs \<noteq> [])
   \<and> map Some (boundary (detectOverflowOptions (setupInstance p fl))) =
       filter (\<lambda>v. v \<noteq> None)
         (case collisionBoundary p of Single v \<Rightarrow> [v] | Many vs \<Rightarrow> vs)
   \<and> altBoundary (detectOverflowOptions
         (setupInstance (p\<lparr>collisionBoundary := Many []\<rparr>) fl)) = False
   \<and> altBoundary (detectOverflowOptions
         (setupInstance (p\<lparr>collisionBoundary := Many [Some a]\<rparr>) fl)) = True"
proof (intro conjI)
  show "altBoundary (detectOverflowOptions (setupInstance p fl)) =
     (case collisionBoundary p of Single v \<Rightarrow> True | Many vs \<Rightarrow> vs \<noteq> [])"
    by (cases "collisionBoundary p")
      (simp_all add: setupInstance_def mkDetectOverflowOptions_def hasExplicitBoundaries_def
         boundaryOf_def)
  have "map Some (boundary (detectOverflowOptions (setupInstance p fl))) =
          map Some (map the (filter isNotNull (boundaryOf (collisionBoundary p))))"
    by (simp add: setupInstance_def mkDetectOverflowOptions_def)
  also have "\<dots> = filter (\<lambda>v. v \<noteq> None) (boundaryOf (collisionBoundary p))"
    by (rule nonnull_roundtrip)
  also have "boundaryOf (collisionBoundary p) =
          (case collisionBoundary p of Single v \<Rightarrow> [v] | Many vs \<Rightarrow> vs)"
    by (cases "collisionBoundary p") (simp_all add: boundaryOf_def)
  finally show "map Some (boundary (detectOverflowOptions (setupInstance p fl))) =
       filter (\<lambda>v. v \<noteq> None)
         (case collisionBoundary p of Single v \<Rightarrow> [v] | Many vs \<Rightarrow> vs)" .
  show "altBoundary (detectOverflowOptions
         (setupInstance (p\<lparr>collisionBoundary := Many []\<rparr>) fl)) = False"
    by (simp add: setupInstance_def mkDetectOverflowOptions_def hasExplicitBoundaries_def
          boundaryOf_def)
  show "altBoundary (detectOverflowOptions
         (setupInstance (p\<lparr>collisionBoundary := Many [Some a]\<rparr>) fl)) = True"
    by (simp add: setupInstance_def mkDetectOverflowOptions_def hasExplicitBoundaries_def
          boundaryOf_def)
qed

section \<open>Rendering and published values\<close>

text \<open>
  C7: while the positioned flag is false, the transform of the outer element is
  translate(0, -200%) whatever the engine's coordinates and transform are; while it is
  true, the transform is the one the engine reports.
\<close>

theorem C7_transform:
  "(\<not> isPositioned (floating i) \<longrightarrow>
      st_transform (originalReturn i) = Some ''translate(0, -200%)'')
   \<and> (isPositioned (floating i) \<longrightarrow>
      st_transform (originalReturn i) = fs_transform (floating i))"
  by (simp add: originalReturn_def)

theorem C7_transform_witness:
  "st_transform (originalReturn (setupInstance defaultProps
       (unplaced\<lparr>x_val := 40, y_val := 80, fs_transform := Some ''translate(40px, 80px)''\<rparr>)))
     = Some ''translate(0, -200%)''
   \<and> st_transform (originalReturn (setupInstance defaultProps
       (unplaced\<lparr>x_val := 40, y_val := 80, fs_transform := Some ''translate(40px, 80px)'',
          isPositioned := True\<rparr>)))
     = Some ''translate(40px, 80px)''"
  using
    C7_transform [of "setupInstance defaultProps
       (unplaced\<lparr>x_val := 40, y_val := 80, fs_transform := Some ''translate(40px, 80px)''\<rparr>)"]
    C7_transform [of "setupInstance defaultProps
       (unplaced\<lparr>x_val := 40, y_val := 80, fs_transform := Some ''translate(40px, 80px)'',
          isPositioned := True\<rparr>)"]
  by (simp add: setupInstance_def unplaced_def)

text \<open>
  C8, as stated, fails when the engine reports no arrow data, as before its first
  computation: the flag published as shouldHideArrow is then true.
\<close>

theorem C8_no_arrow_data_hides:
  "md_arrow (middlewareData (floating (setupInstance defaultProps unplaced))) = None
   \<and> shouldHideArrow (setupInstance defaultProps unplaced)"
  by (simp add: setupInstance_def unplaced_def shouldHideArrow_def cannotCenterArrow_def)

text \<open>
  C8, amended: shouldHideArrow is false exactly when the engine's arrow data is present
  with a center offset of zero; it is true when the data reports a nonzero center offset,
  and also when no arrow data is present.
\<close>

theorem C8_shouldHideArrow:
  "shouldHideArrow i =
     (case md_arrow (middlewareData (floating i)) of
        None \<Rightarrow> True
      | Some a \<Rightarrow> centerOffset a \<noteq> 0)"
  by (simp add: shouldHideArrow_def cannotCenterArrow_def split: option.split)

section \<open>Lifecycle properties\<close>

lemma step_fields:
  "detectOverflowOptions (step z ev i) = detectOverflowOptions i"
  "handlePlaced (step z ev i) = handlePlaced i"
  "content (step z ev i) = content i"
  "contentZIndex (step z ev i) = contentZIndex i"
  by (cases ev;
      simp add: step_def applyEvent_def watchContent_def watchPlaced_def Let_def split: option.split)+

lemma run_fields:
  "detectOverflowOptions (run z evs i) = detectOverflowOptions i"
  "handlePlaced (run z evs i) = handlePlaced i"
  "content (run z evs i) = content i"
  "contentZIndex (run z evs i) = contentZIndex i"
  by (induction evs arbitrary: i; simp add: step_fields)+

lemma step_props:
  "props (step z ev i) = (case ev of PropsChanged p \<Rightarrow> p | _ \<Rightarrow> props i)"
  "arrow (step z ev i) = (case ev of ArrowRef a \<Rightarrow> a | _ \<Rightarrow> arrow i)"
  "floating (step z ev i) = (case ev of EngineUpdate fl \<Rightarrow> fl | _ \<Rightarrow> floating i)"
  by (cases ev;
      simp add: step_def applyEvent_def watchContent_def watchPlaced_def Let_def split: option.split)+

lemma step_placedLog:
  "handlePlaced i = Some cb \<Longrightarrow>
   placedLog (step z ev i) =
     placedLog i @
       (case ev of
          EngineUpdate fl \<Rightarrow>
            if \<not> isPositioned (floating i) \<and> isPositioned fl then [cb, cb]
            else if isPositioned (floating i) \<and> \<not> isPositioned fl then [cb]
            else []
        | _ \<Rightarrow> [])"
  by (cases ev)
     (auto simp add: step_def applyEvent_def watchContent_def watchPlaced_def callHandle_def
        Let_def split: option.split)

text \<open>
  Over any sequence of events the handle is called twice for each false-to-true
  transition of the positioned flag and once for each true-to-false transition.
\<close>

lemma run_placedLog:
  "handlePlaced i = Some cb \<Longrightarrow>
   placedLog (run z evs i) =
     placedLog i
       @ replicate (2 * risingEdges (isPositioned (floating i)) (positionedFlags evs)
                    + fallingEdges (isPositioned (floating i)) (positionedFlags evs)) cb"
proof (induction evs arbitrary: i)
  case Nil
  then show ?case by simp
next
  case (Cons ev evs)
  have h: "handlePlaced (step z ev i) = Some cb"
    using Cons.prems by (simp add: step_fields)
  show ?case
    using Cons.IH [OF h] Cons.prems
    by (cases ev) (simp_all add: step_placedLog step_props replicate_add [symmetric])
qed

text \<open>
  C6 asks that the placed callback is called exactly once for each false-to-true
  transition of the positioned flag. Here the component is set up with the callback 1
  and the flag false: the callback has been called once when setup ends, before any
  transition; the first engine update that sets the flag calls it twice more; an update
  that leaves the flag true calls it no more; an update that clears the flag calls it
  once more.
\<close>

theorem C6_onPlaced_extra_calls:
  "placedLog (setupInstance (defaultProps\<lparr>onPlaced := Some 1\<rparr>) unplaced) = [1]
   \<and> placedLog
       (run (\<lambda>e. ''auto'')
          [EngineUpdate (unplaced\<lparr>isPositioned := True\<rparr>)]
          (setupInstance (defaultProps\<lparr>onPlaced := Some 1\<rparr>) unplaced)) = [1, 1, 1]
   \<and> placedLog
       (run (\<lambda>e. ''auto'')
          [EngineUpdate (unplaced\<lparr>isPositioned := True\<rparr>),
           EngineUpdate (unplaced\<lparr>x_val := 3, isPositioned := True\<rparr>)]
          (setupInstance (defaultProps\<lparr>onPlaced := Some 1\<rparr>) unplaced)) = [1, 1, 1]
   \<and> placedLog
       (run (\<lambda>e. ''auto'')
          [EngineUpdate (unplaced\<lparr>isPositioned := True\<rparr>),
           EngineUpdate (unplaced\<lparr>x_val := 3, isPositioned := True\<rparr>),
           EngineUpdate unplaced]
          (setupInstance (defaultProps\<lparr>onPlaced := Some 1\<rparr>) unplaced)) = [1, 1, 1, 1]"
  by (simp add: step_def applyEvent_def watchContent_def watchPlaced_def callHandle_def
        setupInstance_def useCallbackRef_def defaultProps_def unplaced_def Let_def)

text \<open>
  The handle wraps the callback read at setup: a callback supplied by a later change of
  the props is never called.
\<close>

lemma late_callback_never_called:
  "placedLog (run z evs (setupInstance (p\<lparr>onPlaced := None\<rparr>) fl)) = []"
proof -
  have "handlePlaced i = None \<Longrightarrow> placedLog (step z ev i) = placedLog i" for ev i
    by (cases ev)
       (simp_all add: step_def applyEvent_def watchContent_def watchPlaced_def
          callHandle_def Let_def)
  then have "handlePlaced i = None \<Longrightarrow> placedLog (run z evs i) = placedLog i" for i
    by (induction evs arbitrary: i) (simp_all add: step_fields)
  then show ?thesis
    by (simp add: setupInstance_def useCallbackRef_def callHandle_def)
qed

text \<open>
  C5 asks that a recomputation of the middleware list after a change of collisionPadding
  or collisionBoundary uses the new values. Here the component is set up with the
  default props, then collisionPadding becomes 10 and collisionBoundary becomes
  [element 7]: the recomputed list still carries padding 0, an empty boundary list and
  altBoundary false, where the new props would give padding 10, [element 7] and true.
\<close>

theorem C5_stale_overflow_options:
  "middleware
     (run (\<lambda>e. ''auto'')
        [PropsChanged (defaultProps\<lparr>collisionPaddingProp := PadNumber 10,
                                     collisionBoundary := Many [Some 7]\<rparr>)]
        (setupInstance defaultProps unplaced))
     = [Offset 0 0,
        Shift True False (Some LimitShift)
          \<lparr>padding = PadNumber 0, boundary = [], altBoundary = False\<rparr>,
        Flip \<lparr>padding = PadNumber 0, boundary = [], altBoundary = False\<rparr>,
        Size \<lparr>padding = PadNumber 0, boundary = [], altBoundary = False\<rparr>,
        TransformOrigin 0 0]
   \<and> mkDetectOverflowOptions (defaultProps\<lparr>collisionPaddingProp := PadNumber 10,
                                             collisionBoundary := Many [Some 7]\<rparr>)
     = \<lparr>padding = PadNumber 10, boundary = [7], altBoundary = True\<rparr>"
  by (simp add: middleware_unfold step_def applyEvent_def watchContent_def watchPlaced_def
        setupInstance_def defaultProps_def unplaced_def mkDetectOverflowOptions_def
        collisionPadding_def boundaryOf_def hasExplicitBoundaries_def isNotNull_def
        arrowWidth_def arrowHeight_def)

text \<open>
  The options never change after setup, whatever happens to the props.
\<close>

lemma stale_overflow_options:
  "detectOverflowOptions (run z evs (setupInstance p fl)) = mkDetectOverflowOptions p"
  by (simp add: run_fields setupInstance_def)

text \<open>
  C9 asks that after mount the z-index of the outer element is the computed z-index of
  the rendered content element. Here the outer element 1 and the content element 2,
  whose computed z-index is 10, are mounted: the z-index style stays undefined, because
  the mount binds \<^verbatim>\<open>newRef\<close> and nothing ever assigns \<^verbatim>\<open>content\<close>.
\<close>

theorem C9_zIndex_never_copied:
  "st_zIndex
     (originalReturn
        (run (\<lambda>e. if e = 2 then ''10'' else ''auto'') [Mounted 1 2]
           (setupInstance defaultProps unplaced))) = None
   \<and> content
       (run (\<lambda>e. if e = 2 then ''10'' else ''auto'') [Mounted 1 2]
          (setupInstance defaultProps unplaced)) = None
   \<and> newRef
       (run (\<lambda>e. if e = 2 then ''10'' else ''auto'') [Mounted 1 2]
          (setupInstance defaultProps unplaced)) = Some 1"
  by (simp add: originalReturn_def step_def applyEvent_def watchContent_def watchPlaced_def
        setupInstance_def)

text \<open>The z-index style stays undefined after any sequence of events.\<close>

lemma zIndex_undefined:
  "st_zIndex (originalReturn (run z evs (setupInstance p fl))) = None"
  by (simp add: originalReturn_def run_fields setupInstance_def)

lemma no_arrow_step:
  "arrow i = None \<Longrightarrow> NameArrow \<notin> set (map middlewareName (middleware i))"
  by (simp add: middleware_names)

lemma no_arrow_data_px:
  "md_arrow (middlewareData (floating i)) = None \<Longrightarrow>
   arrowX toStr i = ''0px'' \<and> arrowY toStr i = ''0px''"
  by (simp add: arrowX_def arrowY_def px_def)

lemma no_arrow_invariant:
  "arrow i = None \<Longrightarrow> md_arrow (middlewareData (floating i)) = None \<Longrightarrow>
   engineTrace z i evs \<Longrightarrow> \<forall>ev \<in> set evs. \<not> registersArrow ev \<Longrightarrow>
   arrow (run z evs i) = None \<and> md_arrow (middlewareData (floating (run z evs i))) = None"
proof (induction evs arbitrary: i)
  case Nil
  then show ?case by simp
next
  case (Cons ev evs)
  have a: "arrow (step z ev i) = None"
  proof (cases ev)
    case (ArrowRef v)
    with Cons.prems(4) show ?thesis
      by (cases v) (simp_all add: step_props)
  qed (simp_all add: step_props Cons.prems(1))
  have m: "md_arrow (middlewareData (floating (step z ev i))) = None"
  proof (cases ev)
    case (EngineUpdate fl)
    with Cons.prems(3) have "engineFaithful (middleware i) fl" by simp
    with no_arrow_step [OF Cons.prems(1)] have "md_arrow (middlewareData fl) = None"
      by (auto simp: engineFaithful_def)
    with EngineUpdate show ?thesis by (simp add: step_props)
  qed (simp_all add: step_props Cons.prems(2))
  from Cons.prems have "engineTrace z (step z ev i) evs" "\<forall>ev \<in> set evs. \<not> registersArrow ev"
    by simp_all
  from Cons.IH [OF a m this] show ?case by simp
qed

text \<open>
  C10: from setup on, as long as no arrow element has been registered and the engine
  reports arrow data only for a list with an arrow step, the middleware list has no
  arrow step and the arrow x and y offsets published to descendants are "0px".
\<close>

theorem C10_no_arrow:
  assumes "engineFaithful (middleware (setupInstance p fl)) fl"
    and "engineTrace z (setupInstance p fl) evs"
    and "\<forall>ev \<in> set evs. \<not> registersArrow ev"
  shows "NameArrow \<notin> set (map middlewareName (middleware (run z evs (setupInstance p fl))))
     \<and> arrowX toStr (run z evs (setupInstance p fl)) = ''0px''
     \<and> arrowY toStr (run z evs (setupInstance p fl)) = ''0px''"
proof -
  have a: "arrow (setupInstance p fl) = None"
    by (simp add: setupInstance_def)
  from assms(1) no_arrow_step [OF a] have "md_arrow (middlewareData fl) = None"
    by (auto simp: engineFaithful_def)
  then have m: "md_arrow (middlewareData (floating (setupInstance p fl))) = None"
    by (simp add: setupInstance_def)
  from no_arrow_invariant [OF a m assms(2) assms(3)]
  show ?thesis
    using no_arrow_step no_arrow_data_px by blast
qed

theorem C10_no_arrow_witness:
  "NameArrow \<notin> set (map middlewareName (middleware
      (run (\<lambda>e. ''auto'')
         [Mounted 1 2, EngineUpdate (unplaced\<lparr>x_val := 3, isPositioned := True\<rparr>),
          ArrowRef None, PropsChanged (defaultProps\<lparr>sideOffset := 4\<rparr>)]
         (setupInstance defaultProps unplaced))))
   \<and> arrowX (\<lambda>v. ''?'')
       (run (\<lambda>e. ''auto'')
         [Mounted 1 2, EngineUpdate (unplaced\<lparr>x_val := 3, isPositioned := True\<rparr>),
          ArrowRef None, PropsChanged (defaultProps\<lparr>sideOffset := 4\<rparr>)]
         (setupInstance defaultProps unplaced)) = ''0px''
   \<and> arrowY (\<lambda>v. ''?'')
       (run (\<lambda>e. ''auto'')
         [Mounted 1 2, EngineUpdate (unplaced\<lparr>x_val := 3, isPositioned := True\<rparr>),
          ArrowRef None, PropsChanged (defaultProps\<lparr>sideOffset := 4\<rparr>)]
         (setupInstance defaultProps unplaced)) = ''0px''"
proof -
  have 1: "engineFaithful (middleware (setupInstance defaultProps unplaced)) unplaced"
    by (simp add: engineFaithful_def unplaced_def)
  have 2: "engineTrace (\<lambda>e. ''auto'') (setupInstance defaultProps unplaced)
         [Mounted 1 2, EngineUpdate (unplaced\<lparr>x_val := 3, isPositioned := True\<rparr>),
          ArrowRef None, PropsChanged (defaultProps\<lparr>sideOffset := 4\<rparr>)]"
    by (simp add: engineFaithful_def unplaced_def)
  have 3: "\<forall>ev \<in> set [Mounted 1 2, EngineUpdate (unplaced\<lparr>x_val := 3, isPositioned := True\<rparr>),
          ArrowRef None, PropsChanged (defaultProps\<lparr>sideOffset := 4\<rparr>)]. \<not> registersArrow ev"
    by simp
  show ?thesis
    by (rule C10_no_arrow [OF 1 2 3])
qed

end
